theory Spec2Isabelle
  imports Main
begin

section \<open>Standard-library string functions used by main.go\<close>

text \<open>
  Go strings are byte sequences; \<open>string\<close> (a list of 8-bit \<open>char\<close>) models them.
\<close>

definition nl :: char where
  "nl = CHR 0x0A"

text \<open>\<^verbatim>\<open>strings.IndexByte(s, c)\<close>: index of the first \<open>c\<close> in \<open>s\<close>, or -1.\<close>

fun IndexByte :: "string \<Rightarrow> char \<Rightarrow> int" where
  "IndexByte [] c = - 1"
| "IndexByte (x # xs) c =
     (if x = c then 0
      else (let i = IndexByte xs c in if i < 0 then - 1 else i + 1))"

text \<open>\<^verbatim>\<open>strings.HasSuffix(s, suffix)\<close>.\<close>

definition HasSuffix :: "string \<Rightarrow> string \<Rightarrow> bool" where
  "HasSuffix s suffix =
     (length suffix \<le> length s \<and> drop (length s - length suffix) s = suffix)"

text \<open>
  \<^verbatim>\<open>strings.Split(s, "\n")\<close>: the segments between the newline bytes; never empty,
  an input without a newline gives the one-element list of the input. Read from the
  left: a newline starts a new segment, any other byte joins the first segment of the
  rest (the rest always has one, see \<open>Split_nl_nonempty\<close>).
\<close>

fun Split_nl :: "string \<Rightarrow> string list" where
  "Split_nl [] = [[]]"
| "Split_nl (c # cs) =
     (if c = nl then [] # Split_nl cs
      else (case Split_nl cs of [] \<Rightarrow> [[c]] | l # ls \<Rightarrow> (c # l) # ls))"

text \<open>\<^verbatim>\<open>strings.Join(lines, "\n")\<close>; the empty slice joins to the empty string.\<close>

fun Join_nl :: "string list \<Rightarrow> string" where
  "Join_nl [] = []"
| "Join_nl [l] = l"
| "Join_nl (l # ls) = l @ nl # Join_nl ls"

text \<open>
  \<^verbatim>\<open>strings.TrimSpace\<close> removes leading and trailing white space as
  \<^verbatim>\<open>unicode.IsSpace\<close> defines it, decoding the bytes as UTF-8: the six ASCII
  characters, U+0085 and U+00A0 (two bytes each), and U+1680, U+2000 to U+200A, U+2028,
  U+2029, U+202F, U+205F and U+3000 (three bytes each).
\<close>

definition isAsciiSpace :: "char \<Rightarrow> bool" where
  "isAsciiSpace c =
     (c = CHR 0x09 \<or> c = CHR 0x0A \<or> c = CHR 0x0B \<or> c = CHR 0x0C \<or> c = CHR 0x0D \<or> c = CHR 0x20)"

definition isSpace2 :: "char \<Rightarrow> char \<Rightarrow> bool" where
  "isSpace2 a b = (a = CHR 0xC2 \<and> (b = CHR 0x85 \<or> b = CHR 0xA0))"

definition isSpace3 :: "char \<Rightarrow> char \<Rightarrow> char \<Rightarrow> bool" where
  "isSpace3 a b c =
     ((a = CHR 0xE1 \<and> b = CHR 0x9A \<and> c = CHR 0x80) \<or>
      (a = CHR 0xE2 \<and> b = CHR 0x80 \<and>
         ((0x80 :: nat) \<le> of_char c \<and> (of_char c :: nat) \<le> 0x8A \<or>
          c = CHR 0xA8 \<or> c = CHR 0xA9 \<or> c = CHR 0xAF)) \<or>
      (a = CHR 0xE2 \<and> b = CHR 0x81 \<and> c = CHR 0x9F) \<or>
      (a = CHR 0xE3 \<and> b = CHR 0x80 \<and> c = CHR 0x80))"

text \<open>Length in bytes of the white-space rune a string starts with, 0 when it starts with none.\<close>

fun leadingSpaceLen :: "string \<Rightarrow> nat" where
  "leadingSpaceLen [] = 0"
| "leadingSpaceLen [a] = (if isAsciiSpace a then 1 else 0)"
| "leadingSpaceLen [a, b] = (if isAsciiSpace a then 1 else if isSpace2 a b then 2 else 0)"
| "leadingSpaceLen (a # b # c # _) =
     (if isAsciiSpace a then 1 else if isSpace2 a b then 2 else if isSpace3 a b c then 3 else 0)"

text \<open>The same read from the end, on the reversed string (last byte first).\<close>

fun trailingSpaceLen :: "string \<Rightarrow> nat" where
  "trailingSpaceLen [] = 0"
| "trailingSpaceLen [a] = (if isAsciiSpace a then 1 else 0)"
| "trailingSpaceLen [b, a] = (if isAsciiSpace b then 1 else if isSpace2 a b then 2 else 0)"
| "trailingSpaceLen (c # b # a # _) =
     (if isAsciiSpace c then 1 else if isSpace2 b c then 2 else if isSpace3 a b c then 3 else 0)"

fun TrimLeftSpace :: "string \<Rightarrow> string" where
  "TrimLeftSpace [] = []"
| "TrimLeftSpace (c # cs) =
     (if leadingSpaceLen (c # cs) = 0 then c # cs
      else TrimLeftSpace (drop (leadingSpaceLen (c # cs) - 1) cs))"

fun TrimRightRev :: "string \<Rightarrow> string" where
  "TrimRightRev [] = []"
| "TrimRightRev (c # cs) =
     (if trailingSpaceLen (c # cs) = 0 then c # cs
      else TrimRightRev (drop (trailingSpaceLen (c # cs) - 1) cs))"

definition TrimSpace :: "string \<Rightarrow> string" where
  "TrimSpace s = rev (TrimRightRev (rev (TrimLeftSpace s)))"

section \<open>Helpers of main.go\<close>

datatype panic = NilTypeAssertion | SliceBounds

text \<open>\<^verbatim>\<open>firstLine\<close>: the input up to its first newline, the whole input when it has none.\<close>

definition firstLine :: "string \<Rightarrow> string" where
  "firstLine s =
     (let i = IndexByte s nl in if i \<ge> 0 then take (nat i) s else s)"

text \<open>
  The slice expression \<^verbatim>\<open>lines[lo:]\<close>: Go panics unless \<open>0 \<le> lo \<le> len(lines)\<close>.
\<close>

definition sliceFrom :: "'a list \<Rightarrow> int \<Rightarrow> panic + 'a list" where
  "sliceFrom xs lo =
     (if 0 \<le> lo \<and> lo \<le> int (length xs) then Inr (drop (nat lo) xs) else Inl SliceBounds)"

text \<open>
  \<^verbatim>\<open>trimLines(s, n)\<close>. \<open>n\<close> is a Go \<open>int\<close>. For a negative \<open>n\<close> the difference
  \<open>len(lines) - n\<close> exceeds \<open>len(lines)\<close> (or, wrapped around in 64 bits, is negative):
  in both cases the slice expression panics, as \<open>sliceFrom\<close> does on the unbounded
  difference.
\<close>

definition trimLines :: "string \<Rightarrow> int \<Rightarrow> panic + string" where
  "trimLines s n =
     (let lines = Split_nl s in
      if int (length lines) > n then
        (case sliceFrom lines (int (length lines) - n) of
           Inl p \<Rightarrow> Inl p
         | Inr lines' \<Rightarrow> Inr (Join_nl lines'))
      else Inr (Join_nl lines))"

section \<open>Data model\<close>

definition serviceName :: string where
  "serviceName = ''nightly-onedrive-backup.service''"

definition timerName :: string where
  "timerName = ''nightly-onedrive-backup.timer''"

record unitItem =
  title :: string
  desc :: string

text \<open>
  The messages \<open>Update\<close> switches on: a key press (carrying what \<^verbatim>\<open>msg.String()\<close>
  returns), the three message types of main.go, and any other message of the framework
  or its widgets.
\<close>

datatype 'e msg =
    KeyMsg string
  | OutputMsg string string
  | ErrMsg string
  | TickMsg
  | OtherMsg 'e

text \<open>
  The commands \<open>Update\<close> returns. \<open>Runner h tag unit\<close> is the second closure of
  \<open>asyncRun\<close>, which captured the context with cancellation handle \<open>h\<close>, the tag and the
  unit; \<open>TickNow\<close> is the first closure (it returns \<open>tickMsg\<close> at once); \<open>TickSecond\<close> is
  \<^verbatim>\<open>tea.Tick(time.Second, ...)\<close>; \<open>WidgetCmd\<close> wraps a command of the list or the spinner.
\<close>

datatype 'c cmd =
    Quit
  | TickNow
  | TickSecond
  | Runner nat string string
  | WidgetCmd 'c
  | Batch "'c cmd list"

text \<open>
  The struct \<open>model\<close>. The list and the spinner are widgets of an external library and stay
  abstract (\<open>'l\<close>, \<open>'s\<close>). An \<open>error\<close> is kept as its text. A cancellation function is
  identified by the number of the context it cancels; \<open>None\<close> is Go's \<open>nil\<close>.
\<close>

record ('l, 's) model =
  ulist :: 'l
  spin :: 's
  status :: string
  lastOutput :: string
  loading :: bool
  err :: "string option"
  cancelFunc :: "nat option"

text \<open>
  What main.go calls in the widget and styling libraries. \<open>SelectedItem\<close> is \<open>None\<close> when
  the list has no selected item (Go's \<open>nil\<close> interface value).
\<close>

record ('l, 's, 'c, 'e) widgets =
  listNew :: "unitItem list \<Rightarrow> string \<Rightarrow> 'l"
  SelectedItem :: "'l \<Rightarrow> unitItem option"
  listUpdate :: "'l \<Rightarrow> 'e msg \<Rightarrow> 'l \<times> 'c"
  listView :: "'l \<Rightarrow> string"
  spinNew :: 's
  spinUpdate :: "'s \<Rightarrow> 'e msg \<Rightarrow> 's \<times> 'c"
  spinView :: "'s \<Rightarrow> string"
  renderStatus :: "string \<Rightarrow> string"
  renderFaint :: "string \<Rightarrow> string"

text \<open>
  The effects of \<open>Update\<close> outside the model: \<open>nextCtx\<close> numbers the contexts that
  \<^verbatim>\<open>context.WithCancel\<close> creates, \<open>cancelled\<close> logs every invocation of a cancellation
  function, oldest first.
\<close>

record world =
  nextCtx :: nat
  cancelled :: "nat list"

text \<open>\<^verbatim>\<open>if m.cancelFunc != nil { m.cancelFunc() }\<close>\<close>

definition invokeCancel :: "nat option \<Rightarrow> world \<Rightarrow> world" where
  "invokeCancel f w =
     (case f of None \<Rightarrow> w | Some h \<Rightarrow> w\<lparr>cancelled := cancelled w @ [h]\<rparr>)"

definition title_text :: string where
  "title_text = ''OneDrive Backup '' @ [CHR 0xE2, CHR 0x80, CHR 0x93] @ '' systemd units''"

definition items :: "unitItem list" where
  "items =
     [\<lparr>title = timerName, desc = ''Enable/Disable, View status, Run Now''\<rparr>,
      \<lparr>title = serviceName, desc = ''Run Now, View logs''\<rparr>]"

definition newModel :: "('l, 's, 'c, 'e) widgets \<Rightarrow> ('l, 's) model" where
  "newModel W =
     \<lparr>ulist = listNew W items title_text, spin = spinNew W, status = ''Ready'',
      lastOutput = [], loading = False, err = None, cancelFunc = None\<rparr>"

section \<open>asyncRun\<close>

text \<open>
  The part of \<open>asyncRun\<close> that runs inside \<open>Update\<close>: a new context, the three assignments
  through the pointer receiver (the model returned is the receiver after them), and the
  batch of the two closures.
\<close>

definition asyncRun ::
  "world \<Rightarrow> ('l, 's) model \<Rightarrow> string \<Rightarrow> string \<Rightarrow> ('l, 's) model \<times> 'c cmd \<times> world" where
  "asyncRun w m tag unit =
     (let h = nextCtx w in
      (m\<lparr>cancelFunc := Some h, loading := True, status := tag @ '' '' @ unit\<rparr>,
       Batch [TickNow, Runner h tag unit],
       w\<lparr>nextCtx := Suc h\<rparr>))"

text \<open>
  The processes the second closure starts. \<open>probeOutput\<close> is what
  \<^verbatim>\<open>exec.Command(...).Output()\<close> returns as standard output (its error is dropped);
  \<open>runCombined\<close> is \<^verbatim>\<open>cmd.Run()\<close> with both streams in one buffer, under the context
  of the given handle: the error text, or the buffer.
\<close>

record procs =
  probeOutput :: "string list \<Rightarrow> string"
  runCombined :: "nat \<Rightarrow> string list \<Rightarrow> string + string"

text \<open>
  The \<open>switch tag\<close> of the closure: the command line it builds and the command lines it
  has run on the way, or \<open>None\<close> for the \<open>default\<close> branch.
\<close>

definition selectCmd :: "procs \<Rightarrow> string \<Rightarrow> string \<Rightarrow> (string list \<times> string list list) option" where
  "selectCmd P tag unit =
     (if tag = ''status'' then Some ([''systemctl'', ''status'', ''--no-pager'', unit], [])
      else if tag = ''start'' then Some ([''systemctl'', ''start'', unit], [])
      else if tag = ''toggle'' then
        (let stateOut = probeOutput P [''systemctl'', ''is-enabled'', unit] in
         if TrimSpace stateOut = ''enabled''
         then Some ([''systemctl'', ''disable'', ''--now'', unit], [[''systemctl'', ''is-enabled'', unit]])
         else Some ([''systemctl'', ''enable'', ''--now'', unit], [[''systemctl'', ''is-enabled'', unit]]))
      else if tag = ''enable'' then Some ([''systemctl'', ''enable'', ''--now'', unit], [])
      else if tag = ''logs'' then Some ([''journalctl'', ''-u'', unit, ''-n'', ''50'', ''--no-pager''], [])
      else None)"

text \<open>
  Running the closure: the message it returns and every command line it has run, in
  order.
\<close>

definition runClosure :: "procs \<Rightarrow> nat \<Rightarrow> string \<Rightarrow> string \<Rightarrow> 'e msg \<times> string list list" where
  "runClosure P h tag unit =
     (case selectCmd P tag unit of
        None \<Rightarrow> (ErrMsg ''unknown action'', [])
      | Some (cmdline, before) \<Rightarrow>
          (case runCombined P h cmdline of
             Inl e \<Rightarrow> (ErrMsg e, before @ [cmdline])
           | Inr buf \<Rightarrow> (OutputMsg tag buf, before @ [cmdline])))"

section \<open>Update\<close>

text \<open>
  The statements after the \<open>switch\<close>: the spinner is updated when \<open>loading\<close> is set,
  the list always, and the commands are batched. \<open>cmds\<close> is what the switch has appended.
\<close>

definition afterSwitch ::
  "('l, 's, 'c, 'e) widgets \<Rightarrow> ('l, 's) model \<Rightarrow> 'e msg \<Rightarrow> 'c cmd list \<Rightarrow> ('l, 's) model \<times> 'c cmd" where
  "afterSwitch W m msg cmds =
     (let (m1, cmds1) =
            (if loading m
             then (m\<lparr>spin := fst (spinUpdate W (spin m) msg)\<rparr>,
                   cmds @ [WidgetCmd (snd (spinUpdate W (spin m) msg))])
             else (m, cmds));
          m2 = m1\<lparr>ulist := fst (listUpdate W (ulist m1) msg)\<rparr>
      in (m2, Batch (cmds1 @ [WidgetCmd (snd (listUpdate W (ulist m1) msg))])))"

text \<open>
  \<open>Update\<close> ends its action cases with \<^verbatim>\<open>return m, m.asyncRun(tag, selected.title)\<close>.
  The first operand reads the variable \<open>m\<close> (and copies it into the interface value
  returned), the second is a call that assigns to \<open>m\<close> through the pointer receiver. Go
  orders calls among themselves, but not a variable read against a call, so the model
  returned is \<open>m\<close> as it is after the call (\<open>CallFirst\<close>: with the handle, the loading
  flag and the status that \<open>asyncRun\<close> assigned) or as it was before (\<open>OperandFirst\<close>),
  as the compiler chooses. The choice is a parameter of \<open>Update\<close>.
\<close>

datatype evalOrder = CallFirst | OperandFirst

text \<open>
  \<^verbatim>\<open>selected := m.list.SelectedItem().(unitItem); return m, m.asyncRun(tag, selected.title)\<close>,
  with the tag computed from the selected item. The type assertion panics on \<open>nil\<close>.
\<close>

definition dispatch ::
  "('l, 's, 'c, 'e) widgets \<Rightarrow> evalOrder \<Rightarrow> world \<Rightarrow> ('l, 's) model \<Rightarrow>
     (unitItem \<Rightarrow> string) \<Rightarrow> panic + (('l, 's) model \<times> 'c cmd \<times> world)" where
  "dispatch W ord w m tagOf =
     (case SelectedItem W (ulist m) of
        None \<Rightarrow> Inl NilTypeAssertion
      | Some selected \<Rightarrow>
          (let (m', c, w') = asyncRun w m (tagOf selected) (title selected)
           in Inr (case ord of CallFirst \<Rightarrow> m' | OperandFirst \<Rightarrow> m, c, w')))"

definition spaceAction :: "unitItem \<Rightarrow> string" where
  "spaceAction selected = (if HasSuffix (title selected) ''.timer'' then ''toggle'' else ''enable'')"

definition Update ::
  "('l, 's, 'c, 'e) widgets \<Rightarrow> evalOrder \<Rightarrow> world \<Rightarrow> ('l, 's) model \<Rightarrow> 'e msg \<Rightarrow>
     panic + (('l, 's) model \<times> 'c cmd \<times> world)" where
  "Update W ord w m msg =
     (case msg of
        KeyMsg k \<Rightarrow>
          if k = ''q'' \<or> k = ''ctrl+c'' then Inr (m, Quit, invokeCancel (cancelFunc m) w)
          else if k = ''enter'' then dispatch W ord w m (\<lambda>_. ''status'')
          else if k = ''r'' then dispatch W ord w m (\<lambda>_. ''start'')
          else if k = '' '' then dispatch W ord w m spaceAction
          else if k = ''l'' then dispatch W ord w m (\<lambda>_. ''logs'')
          else (let (m', c) = afterSwitch W m msg [] in Inr (m', c, w))
      | OutputMsg tag out \<Rightarrow>
          (let m1 = m\<lparr>loading := False,
                       status := ''['' @ tag @ ''] '' @ firstLine out,
                       lastOutput := out\<rparr>;
               (m', c) = afterSwitch W m1 msg []
           in Inr (m', c, invokeCancel (cancelFunc m1) w))
      | ErrMsg e \<Rightarrow>
          (let m1 = m\<lparr>loading := False, err := Some e, status := ''Error: '' @ e\<rparr>;
               (m', c) = afterSwitch W m1 msg []
           in Inr (m', c, invokeCancel (cancelFunc m1) w))
      | TickMsg \<Rightarrow>
          (let m1 = m\<lparr>spin := fst (spinUpdate W (spin m) msg)\<rparr>;
               (m', c) = afterSwitch W m1 msg [TickSecond]
           in Inr (m', c, w))
      | OtherMsg x \<Rightarrow> (let (m', c) = afterSwitch W m msg [] in Inr (m', c, w)))"

text \<open>
  The event loop hands the messages to \<open>Update\<close> one after the other, each call on the
  model the previous one returned; a panic ends the program.
\<close>

fun UpdateAll ::
  "('l, 's, 'c, 'e) widgets \<Rightarrow> evalOrder \<Rightarrow> world \<Rightarrow> ('l, 's) model \<Rightarrow> 'e msg list \<Rightarrow>
     panic + (('l, 's) model \<times> world)" where
  "UpdateAll W ord w m [] = Inr (m, w)"
| "UpdateAll W ord w m (msg # msgs) =
     (case Update W ord w m msg of
        Inl p \<Rightarrow> Inl p
      | Inr (m', c, w') \<Rightarrow> UpdateAll W ord w' m' msgs)"

section \<open>View\<close>

definition help_text :: string where
  "help_text =
     [nl, nl] @ ''['' @ [CHR 0xE2, CHR 0x86, CHR 0x91] @ ''/'' @ [CHR 0xE2, CHR 0x86, CHR 0x93] @
     ''] navigate '' @ [CHR 0xE2, CHR 0x80, CHR 0xA2] @ '' [space] enable/disable '' @
     [CHR 0xE2, CHR 0x80, CHR 0xA2] @ '' [r] run '' @ [CHR 0xE2, CHR 0x80, CHR 0xA2] @
     '' [enter] status '' @ [CHR 0xE2, CHR 0x80, CHR 0xA2] @ '' [l] logs '' @
     [CHR 0xE2, CHR 0x80, CHR 0xA2] @ '' [q] quit'' @ [nl]"

definition View :: "('l, 's, 'c, 'e) widgets \<Rightarrow> ('l, 's) model \<Rightarrow> panic + string" where
  "View W m =
     (let b1 = listView W (ulist m);
          b2 = (if loading m then b1 @ [nl] @ spinView W (spin m) @ '' '' @ status m
                else b1 @ [nl] @ renderStatus W (status m))
      in if lastOutput m \<noteq> [] then
           (case trimLines (lastOutput m) 20 of
              Inl p \<Rightarrow> Inl p
            | Inr shown \<Rightarrow> Inr (b2 @ [nl, nl] @ renderFaint W shown @ help_text))
         else Inr (b2 @ help_text))"

section \<open>main\<close>

text \<open>
  What \<open>main\<close> sees of the host: whether \<^verbatim>\<open>exec.LookPath\<close> resolves a name, and the error
  \<^verbatim>\<open>p.Start()\<close> returns, if any. Its outcome: the lines written to the two streams,
  whether \<^verbatim>\<open>p.Start()\<close> was called, and the exit status.
\<close>

record host =
  lookPath :: "string \<Rightarrow> bool"
  startError :: "string option"

record outcome =
  stderrLines :: "string list"
  stdoutLines :: "string list"
  programStarted :: bool
  exitStatus :: nat

definition main :: "host \<Rightarrow> outcome" where
  "main H =
     (if \<not> lookPath H ''systemctl''
      then \<lparr>stderrLines = [''systemctl not found''], stdoutLines = [],
            programStarted = False, exitStatus = 1\<rparr>
      else (case startError H of
              Some e \<Rightarrow> \<lparr>stderrLines = [], stdoutLines = [''Error: '' @ e],
                         programStarted = True, exitStatus = 1\<rparr>
            | None \<Rightarrow> \<lparr>stderrLines = [], stdoutLines = [],
                       programStarted = True, exitStatus = 0\<rparr>))"

section \<open>A small list widget for concrete runs\<close>

text \<open>
  The theorems below hold for every widget library. Concrete runs need one: here the list
  is its items and a cursor moved by the up and down keys, the spinner a frame counter,
  the styles the identity, and the widgets return no command (\<open>()\<close>).
\<close>

record cursorList =
  entries :: "unitItem list"
  cursor :: nat

definition cursorUpdate :: "cursorList \<Rightarrow> unit msg \<Rightarrow> cursorList \<times> unit" where
  "cursorUpdate l msg =
     (case msg of
        KeyMsg k \<Rightarrow>
          if k = ''down'' \<and> Suc (cursor l) < length (entries l) then (l\<lparr>cursor := Suc (cursor l)\<rparr>, ())
          else if k = ''up'' \<and> 0 < cursor l then (l\<lparr>cursor := cursor l - 1\<rparr>, ())
          else (l, ())
      | _ \<Rightarrow> (l, ()))"

definition cursorSelected :: "cursorList \<Rightarrow> unitItem option" where
  "cursorSelected l = (if cursor l < length (entries l) then Some (entries l ! cursor l) else None)"

definition plainWidgets :: "(cursorList, nat, unit, unit) widgets" where
  "plainWidgets =
     \<lparr>listNew = (\<lambda>its t. \<lparr>entries = its, cursor = 0\<rparr>),
      SelectedItem = cursorSelected,
      listUpdate = cursorUpdate,
      listView = (\<lambda>l. concat (map (\<lambda>i. title i @ [nl]) (entries l))),
      spinNew = 0,
      spinUpdate = (\<lambda>s msg. (Suc s, ())),
      spinView = (\<lambda>s. ''.''),
      renderStatus = (\<lambda>s. s),
      renderFaint = (\<lambda>s. s)\<rparr>"

definition world0 :: world where
  "world0 = \<lparr>nextCtx = 0, cancelled = []\<rparr>"

text \<open>
  States of concrete runs: the world after \<open>n\<close> contexts were created and none cancelled,
  the initial model after \<open>asyncRun(tag, timerName)\<close> has stored the handle \<open>h\<close>, and
  the initial model with the cursor on the service unit.
\<close>

definition worldAfter :: "nat \<Rightarrow> world" where
  "worldAfter n = \<lparr>nextCtx = n, cancelled = []\<rparr>"

definition busyModel :: "string \<Rightarrow> nat \<Rightarrow> (cursorList, nat) model" where
  "busyModel tag h =
     (newModel plainWidgets)\<lparr>cancelFunc := Some h, loading := True,
                                status := tag @ '' '' @ timerName\<rparr>"

definition serviceSelected :: "(cursorList, nat) model" where
  "serviceSelected = (newModel plainWidgets)\<lparr>ulist := \<lparr>entries = items, cursor = 1\<rparr>\<rparr>"

text \<open>Twenty-five lines \<open>x\<close>, each ended by a newline.\<close>

definition manyLines :: string where
  "manyLines = concat (replicate 25 (''x'' @ [nl]))"

text \<open>
  Processes for concrete runs: the probe prints \<open>probe\<close>, every command succeeds and
  prints \<open>buf\<close>.
\<close>

definition fixedProcs :: "string \<Rightarrow> string \<Rightarrow> procs" where
  "fixedProcs probe buf = \<lparr>probeOutput = (\<lambda>cl. probe), runCombined = (\<lambda>h cl. Inr buf)\<rparr>"

section \<open>Reading results\<close>

text \<open>The command a call of \<open>Update\<close> returned, \<open>None\<close> after a panic.\<close>

definition cmdOf :: "panic + (('l, 's) model \<times> 'c cmd \<times> world) \<Rightarrow> 'c cmd option" where
  "cmdOf r = (case r of Inl p \<Rightarrow> None | Inr (m, c, w) \<Rightarrow> Some c)"

text \<open>
  What a run of the event loop leaves behind: the loading flag, the status line, the
  stored output, and the cancellation functions invoked so far.
\<close>

definition observe ::
  "panic + (('l, 's) model \<times> world) \<Rightarrow> (bool \<times> string \<times> string \<times> nat list) option" where
  "observe r =
     (case r of
        Inl p \<Rightarrow> None
      | Inr (m, w) \<Rightarrow> Some (loading m, status m, lastOutput m, cancelled w))"

section \<open>The specification's reading of trim-lines\<close>

text \<open>
  "The last N lines, or all lines if fewer than N exist", written on the list of lines
  without reference to \<open>trimLines\<close>: reverse, keep the first \<open>k\<close>, reverse back.
\<close>

definition spec_lastLines :: "nat \<Rightarrow> string list \<Rightarrow> string list" where
  "spec_lastLines k ls = rev (take k (rev ls))"

text \<open>
  The ordinary reading of "line": a line ends at its newline, and text after the last
  newline is one more line when it is not empty. On the segments of the split, that is
  every segment but an empty last one.
\<close>

definition spec_lines :: "string \<Rightarrow> string list" where
  "spec_lines s = (if last (Split_nl s) = [] then butlast (Split_nl s) else Split_nl s)"

text \<open>Twenty lines \<open>x\<close>, each ended by a newline.\<close>

definition twentyLines :: string where
  "twentyLines = concat (replicate 20 (''x'' @ [nl]))"

section \<open>A list widget with a filter, for concrete runs\<close>








section \<open>Facts about the string helpers\<close>

lemma Split_nl_nonempty: "Split_nl s \<noteq> []"
  by (induction s) (auto split: list.splits)

lemma Split_nl_no_nl: "l \<in> set (Split_nl s) \<Longrightarrow> nl \<notin> set l"
proof (induction s arbitrary: l)
  case Nil
  then show ?case by simp
next
  case (Cons c cs)
  obtain h t where ht: "Split_nl cs = h # t"
    using Split_nl_nonempty [of cs] by (cases "Split_nl cs") auto
  show ?case
  proof (cases "c = nl")
    case True
    with Cons show ?thesis by auto
  next
    case False
    with Cons.prems ht have "l = c # h \<or> l \<in> set t" by auto
    then show ?thesis
      using Cons.IH [of h] Cons.IH [of l] ht False by auto
  qed
qed

lemma Split_nl_append_line:
  "nl \<notin> set l \<Longrightarrow> Split_nl (l @ nl # s) = l # Split_nl s"
  by (induction l) auto

lemma Split_nl_single: "nl \<notin> set l \<Longrightarrow> Split_nl l = [l]"
  by (induction l) auto

lemma Split_Join_nl:
  "ls \<noteq> [] \<Longrightarrow> \<forall>l \<in> set ls. nl \<notin> set l \<Longrightarrow> Split_nl (Join_nl ls) = ls"
proof (induction ls rule: Join_nl.induct)
  case 1
  then show ?case by simp
next
  case (2 l)
  then show ?case by (simp add: Split_nl_single)
next
  case (3 l v va)
  then show ?case by (simp add: Split_nl_append_line)
qed

lemma Split_nl_snoc: "Split_nl (s @ [nl]) = Split_nl s @ [[]]"
proof (induction s)
  case Nil
  then show ?case by simp
next
  case (Cons c cs)
  then show ?case using Split_nl_nonempty [of cs] by (cases "Split_nl cs") auto
qed

lemma IndexByte_ge: "- 1 \<le> IndexByte s c"
  by (induction s) (auto simp: Let_def)

lemma firstLine_takeWhile: "firstLine s = takeWhile (\<lambda>c. c \<noteq> nl) s"
proof -
  have "(if IndexByte s nl \<ge> 0 then take (nat (IndexByte s nl)) s else s) =
        takeWhile (\<lambda>c. c \<noteq> nl) s"
  proof (induction s)
    case Nil
    then show ?case by simp
  next
    case (Cons c cs)
    show ?case
    proof (cases "c = nl")
      case True
      then show ?thesis by simp
    next
      case False
      then show ?thesis using Cons IndexByte_ge [of cs nl]
        by (auto simp: Let_def nat_add_distrib split: if_splits)
    qed
  qed
  then show ?thesis by (simp add: firstLine_def Let_def)
qed

lemma hd_Split_nl: "hd (Split_nl s) = takeWhile (\<lambda>c. c \<noteq> nl) s"
  using Split_nl_nonempty by (induction s) (auto split: list.splits)

lemma firstLine_hd_Split: "firstLine s = hd (Split_nl s)"
  by (simp add: firstLine_takeWhile hd_Split_nl)

lemma trimLines_nonneg:
  "0 \<le> n \<Longrightarrow>
   trimLines s n = Inr (Join_nl (drop (length (Split_nl s) - nat n) (Split_nl s)))"
  by (auto simp: trimLines_def sliceFrom_def Let_def nat_diff_distrib)

lemma spec_lastLines_drop: "spec_lastLines k ls = drop (length ls - k) ls"
  by (simp add: spec_lastLines_def rev_take)

lemma trimLines_window:
  assumes "0 < n"
  shows "\<exists>r. trimLines s n = Inr r \<and> Split_nl r = spec_lastLines (nat n) (Split_nl s)"
proof -
  let ?ls = "spec_lastLines (nat n) (Split_nl s)"
  have r: "trimLines s n = Inr (Join_nl ?ls)"
    using assms by (simp add: trimLines_nonneg spec_lastLines_drop)
  have no_nl: "\<forall>l \<in> set ?ls. nl \<notin> set l"
    using Split_nl_no_nl [of _ s] by (auto simp: spec_lastLines_drop dest: in_set_dropD)
  obtain h t where "Split_nl s = h # t"
    using Split_nl_nonempty [of s] by (cases "Split_nl s") auto
  moreover have "0 < nat n"
    using assms by simp
  ultimately have "length (Split_nl s) - nat n < length (Split_nl s)"
    by simp
  then have "?ls \<noteq> []"
    by (simp add: spec_lastLines_drop)
  then have "Split_nl (Join_nl ?ls) = ?ls"
    using no_nl by (rule Split_Join_nl)
  with r show ?thesis by blast
qed

section \<open>Facts about Update\<close>

lemma afterSwitch_fields:
  "loading (fst (afterSwitch W m msg cmds)) = loading m \<and>
   status (fst (afterSwitch W m msg cmds)) = status m \<and>
   lastOutput (fst (afterSwitch W m msg cmds)) = lastOutput m \<and>
   err (fst (afterSwitch W m msg cmds)) = err m \<and>
   cancelFunc (fst (afterSwitch W m msg cmds)) = cancelFunc m"
  by (simp add: afterSwitch_def Let_def)

lemma Update_OutputMsg_fields:
  "\<exists>m' c. Update W ord w m (OutputMsg tag out) = Inr (m', c, invokeCancel (cancelFunc m) w) \<and>
     \<not> loading m' \<and> status m' = ''['' @ tag @ ''] '' @ firstLine out \<and>
     lastOutput m' = out \<and> cancelFunc m' = cancelFunc m"
proof -
  let ?m1 = "m\<lparr>loading := False, status := ''['' @ tag @ ''] '' @ firstLine out, lastOutput := out\<rparr>"
  obtain m' c where a: "afterSwitch W ?m1 (OutputMsg tag out) [] = (m', c)"
    by (cases "afterSwitch W ?m1 (OutputMsg tag out) []") 
  have u: "Update W ord w m (OutputMsg tag out) = Inr (m', c, invokeCancel (cancelFunc m) w)"
    using a by (simp add: Update_def Let_def)
  have "m' = fst (afterSwitch W ?m1 (OutputMsg tag out) [])"
    using a by simp
  then have "\<not> loading m' \<and> status m' = ''['' @ tag @ ''] '' @ firstLine out \<and>
     lastOutput m' = out \<and> cancelFunc m' = cancelFunc m"
    using afterSwitch_fields [of W ?m1 "OutputMsg tag out" "[]"] by simp
  with u show ?thesis by blast
qed

lemma Update_ErrMsg_fields:
  "\<exists>m' c. Update W ord w m (ErrMsg e) = Inr (m', c, invokeCancel (cancelFunc m) w) \<and>
     \<not> loading m' \<and> status m' = ''Error: '' @ e \<and> err m' = Some e \<and>
     lastOutput m' = lastOutput m \<and> cancelFunc m' = cancelFunc m"
proof -
  let ?m1 = "m\<lparr>loading := False, err := Some e, status := ''Error: '' @ e\<rparr>"
  obtain m' c where a: "afterSwitch W ?m1 (ErrMsg e) [] = (m', c)"
    by (cases "afterSwitch W ?m1 (ErrMsg e) []") 
  have u: "Update W ord w m (ErrMsg e) = Inr (m', c, invokeCancel (cancelFunc m) w)"
    using a by (simp add: Update_def Let_def)
  have "m' = fst (afterSwitch W ?m1 (ErrMsg e) [])"
    using a by simp
  then have "\<not> loading m' \<and> status m' = ''Error: '' @ e \<and> err m' = Some e \<and>
     lastOutput m' = lastOutput m \<and> cancelFunc m' = cancelFunc m"
    using afterSwitch_fields [of W ?m1 "ErrMsg e" "[]"] by simp
  with u show ?thesis by blast
qed

lemma afterSwitch_not_dispatch:
  "snd (afterSwitch W m msg cmds) \<noteq> Batch [TickNow, Runner h tag u]"
  by (auto simp: afterSwitch_def Let_def split: if_splits
      dest!: arg_cong [where f = last])

lemma Update_key_cases:
  "Update W ord w m (KeyMsg k) =
     (if k = ''q'' \<or> k = ''ctrl+c'' then Inr (m, Quit, invokeCancel (cancelFunc m) w)
      else if k = ''enter'' then dispatch W ord w m (\<lambda>_. ''status'')
      else if k = ''r'' then dispatch W ord w m (\<lambda>_. ''start'')
      else if k = '' '' then dispatch W ord w m spaceAction
      else if k = ''l'' then dispatch W ord w m (\<lambda>_. ''logs'')
      else Inr (fst (afterSwitch W m (KeyMsg k) []), snd (afterSwitch W m (KeyMsg k) []), w))"
  by (simp add: Update_def Let_def case_prod_beta)

lemma dispatch_shape:
  assumes "dispatch W ord w m tagOf = Inr (m', c, w')"
  shows "\<exists>u. SelectedItem W (ulist m) = Some u \<and>
           c = Batch [TickNow, Runner (nextCtx w) (tagOf u) (title u)] \<and>
           m' = (case ord of
                   CallFirst \<Rightarrow> m\<lparr>cancelFunc := Some (nextCtx w), loading := True,
                                    status := tagOf u @ '' '' @ title u\<rparr>
                 | OperandFirst \<Rightarrow> m) \<and>
           w' = w\<lparr>nextCtx := Suc (nextCtx w)\<rparr>"
  using assms
  by (cases ord) (auto simp: dispatch_def asyncRun_def Let_def split: option.splits)

lemma Update_dispatch_shape:
  assumes "Update W ord w m (KeyMsg k) = Inr (m', Batch [TickNow, Runner h tag u], w')"
  shows "h = nextCtx w \<and> nextCtx w' = Suc h \<and> cancelled w' = cancelled w \<and>
         lastOutput m' = lastOutput m \<and> ulist m' = ulist m \<and>
         (ord = CallFirst \<longrightarrow>
            cancelFunc m' = Some h \<and> loading m' \<and> status m' = tag @ '' '' @ u) \<and>
         (ord = OperandFirst \<longrightarrow> m' = m)"
proof -
  have nq: "\<not> (k = ''q'' \<or> k = ''ctrl+c'')"
    using assms by (auto simp: Update_key_cases)
  have "\<exists>tagOf. dispatch W ord w m tagOf = Inr (m', Batch [TickNow, Runner h tag u], w')"
  proof (cases "k = ''enter'' \<or> k = ''r'' \<or> k = '' '' \<or> k = ''l''")
    case True
    then show ?thesis using assms nq by (auto simp: Update_key_cases split: if_splits)
  next
    case False
    then have "snd (afterSwitch W m (KeyMsg k) []) = Batch [TickNow, Runner h tag u]"
      using assms nq by (simp add: Update_key_cases)
    then show ?thesis using afterSwitch_not_dispatch [of W m "KeyMsg k" "[]" h tag u] by simp
  qed
  then obtain tagOf where "dispatch W ord w m tagOf = Inr (m', Batch [TickNow, Runner h tag u], w')" ..
  from dispatch_shape [OF this] show ?thesis by (cases ord) auto
qed

lemma runClosure_OutputMsg_tag:
  "fst (runClosure P h tag u) = OutputMsg t out \<Longrightarrow> t = tag"
  by (auto simp: runClosure_def split: option.splits sum.splits prod.splits)

section \<open>trimLines\<close>

text \<open>
  C3 (as amended). For every output and every line count \<open>k\<close>, \<open>trimLines\<close> returns the
  last \<open>k\<close> segments of the output split at newlines, joined by newlines (all of them
  when there are fewer); for \<open>k > 0\<close> the segments of the result are exactly those
  segments; and applying \<open>trimLines\<close> to the result with the same \<open>k\<close> returns the
  result unchanged. An output that ends in a newline has an empty last segment, which
  is one of the \<open>k\<close>.
\<close>

theorem trimLines_last_segments_idempotent:
  "\<exists>r. trimLines s (int k) = Inr r \<and>
       r = Join_nl (spec_lastLines k (Split_nl s)) \<and>
       (0 < k \<longrightarrow> Split_nl r = spec_lastLines k (Split_nl s)) \<and>
       trimLines r (int k) = Inr r"
proof -
  let ?ls = "spec_lastLines k (Split_nl s)"
  let ?r = "Join_nl ?ls"
  have r: "trimLines s (int k) = Inr ?r"
    by (simp add: trimLines_nonneg spec_lastLines_drop)
  have len: "length ?ls \<le> k"
    by (simp add: spec_lastLines_drop)
  have split: "Split_nl ?r = ?ls" if "0 < k"
    using trimLines_window [of "int k" s] that r by simp
  have idem: "trimLines ?r (int k) = Inr ?r"
  proof (cases "0 < k")
    case True
    then show ?thesis
      using len by (simp add: trimLines_nonneg split)
  next
    case False
    then show ?thesis by (simp add: trimLines_nonneg spec_lastLines_drop)
  qed
  from r split idem show ?thesis by blast
qed

theorem trimLines_last_segments_idempotent_witness:
  "trimLines (''a'' @ [nl] @ ''b'' @ [nl] @ ''c'') (int 2) = Inr (''b'' @ [nl] @ ''c'') \<and>
   Split_nl (''b'' @ [nl] @ ''c'') = [''b'', ''c''] \<and>
   trimLines (''b'' @ [nl] @ ''c'') (int 2) = Inr (''b'' @ [nl] @ ''c'')"
  using trimLines_last_segments_idempotent [of "''a'' @ [nl] @ ''b'' @ [nl] @ ''c''" 2]
  by (simp add: spec_lastLines_def nl_def)

theorem trimLines_newline_terminated_counterexample:
  "length (spec_lines twentyLines) = 20 \<and>
   trimLines twentyLines 20 = Inr (concat (replicate 19 (''x'' @ [nl]))) \<and>
   length (spec_lines (concat (replicate 19 (''x'' @ [nl])))) = 19"
  by code_simp

text \<open>
  C10. \<open>trimLines\<close> counts the segments of the split at newlines: an input that ends in
  a newline has a last, empty segment, which takes one place of the window. So
  \<open>trimLines("a\nb\nc\n", 3)\<close> is \<open>"b\nc\n"\<close>, with two non-empty lines.
\<close>

theorem trimLines_trailing_newline_segment:
  "last (Split_nl (s @ [nl])) = [] \<and>
   Split_nl (''a'' @ [nl] @ ''b'' @ [nl] @ ''c'' @ [nl]) = [''a'', ''b'', ''c'', []] \<and>
   trimLines (''a'' @ [nl] @ ''b'' @ [nl] @ ''c'' @ [nl]) 3 = Inr (''b'' @ [nl] @ ''c'' @ [nl]) \<and>
   filter (\<lambda>l. l \<noteq> []) (Split_nl (''b'' @ [nl] @ ''c'' @ [nl])) = [''b'', ''c'']"
proof -
  have "last (Split_nl (s @ [nl])) = []"
    by (simp add: Split_nl_snoc)
  moreover have "Split_nl (''a'' @ [nl] @ ''b'' @ [nl] @ ''c'' @ [nl]) = [''a'', ''b'', ''c'', []]"
    by (simp add: nl_def)
  moreover have "trimLines (''a'' @ [nl] @ ''b'' @ [nl] @ ''c'' @ [nl]) 3 = Inr (''b'' @ [nl] @ ''c'' @ [nl])"
    by (simp add: trimLines_def sliceFrom_def nl_def)
  moreover have "filter (\<lambda>l. l \<noteq> []) (Split_nl (''b'' @ [nl] @ ''c'' @ [nl])) = [''b'', ''c'']"
    by (simp add: nl_def)
  ultimately show ?thesis by blast
qed

theorem trimLines_trailing_newline_segment_witness:
  "last (Split_nl (''x'' @ [nl])) = []"
  using trimLines_trailing_newline_segment [of "''x''"] by simp

section \<open>Command results, the toggle probe and start-up\<close>

text \<open>
  C5 (as amended). When a successful command result \<open>outputMsg{tag, out}\<close> is consumed
  (in the Busy state as in any other), \<open>Update\<close> returns a model with the loading flag
  cleared and the full output stored, whose status line is \<open>[tag]\<close>, a space, and the
  first line of the output (its first segment at newlines).
\<close>

theorem Update_output_status_tag_first_line:
  "\<exists>m' c w'. Update W ord w m (OutputMsg tag out) = Inr (m', c, w') \<and>
      \<not> loading m' \<and> lastOutput m' = out \<and>
      status m' = ''['' @ tag @ ''] '' @ hd (Split_nl out)"
  using Update_OutputMsg_fields [of W ord w m tag out]
  by (auto simp: firstLine_hd_Split)

theorem Update_output_status_tag_first_line_witness:
  "\<exists>m' c w'.
      Update plainWidgets CallFirst world0 (newModel plainWidgets)
        (OutputMsg ''status'' (''active'' @ [nl] @ ''since today'')) = Inr (m', c, w') \<and>
      \<not> loading m' \<and> lastOutput m' = ''active'' @ [nl] @ ''since today'' \<and>
      status m' = ''[status] active''"
proof -
  have s: "''['' @ ''status'' @ ''] '' @ hd (Split_nl (''active'' @ [nl] @ ''since today'')) =
           ''[status] active''"
    by (simp add: nl_def)
  show ?thesis
    using Update_output_status_tag_first_line
      [of plainWidgets CallFirst world0 "newModel plainWidgets" "''status''" "''active'' @ [nl] @ ''since today''"]
    unfolding s .
qed

theorem status_not_first_line_counterexample:
  "observe (UpdateAll plainWidgets CallFirst world0 (newModel plainWidgets)
      [KeyMsg ''enter'', OutputMsg ''status'' (''active'' @ [nl] @ ''since today'')]) =
   Some (False, ''[status] active'', ''active'' @ [nl] @ ''since today'', [0]) \<and>
   firstLine (''active'' @ [nl] @ ''since today'') = ''active'' \<and>
   ''[status] active'' \<noteq> ''active''"
  by code_simp

text \<open>
  C2. For every unit, the closure dispatched for the tag \<open>toggle\<close> first runs the probe
  \<open>systemctl is-enabled <unit>\<close>, trims its output and compares it with \<open>enabled\<close>: when
  equal it runs \<open>systemctl disable --now <unit>\<close>, for any other output
  \<open>systemctl enable --now <unit>\<close>.
\<close>

theorem toggle_probe_then_disable_or_enable:
  "snd (runClosure P h ''toggle'' unit) =
     [[''systemctl'', ''is-enabled'', unit],
      (if TrimSpace (probeOutput P [''systemctl'', ''is-enabled'', unit]) = ''enabled''
       then [''systemctl'', ''disable'', ''--now'', unit]
       else [''systemctl'', ''enable'', ''--now'', unit])]"
  by (simp add: runClosure_def selectCmd_def Let_def split: sum.splits)

theorem toggle_probe_then_disable_or_enable_witness:
  "snd (runClosure (fixedProcs (''enabled'' @ [nl]) ''ok'') 0 ''toggle'' timerName) =
     [[''systemctl'', ''is-enabled'', timerName], [''systemctl'', ''disable'', ''--now'', timerName]] \<and>
   snd (runClosure (fixedProcs (''disabled'' @ [nl]) ''ok'') 0 ''toggle'' timerName) =
     [[''systemctl'', ''is-enabled'', timerName], [''systemctl'', ''enable'', ''--now'', timerName]]"
proof -
  have e: "TrimSpace (''enabled'' @ [nl]) = ''enabled''"
    by code_simp
  have d: "TrimSpace (''disabled'' @ [nl]) \<noteq> ''enabled''"
    by code_simp
  show ?thesis
    using toggle_probe_then_disable_or_enable [of "fixedProcs (''enabled'' @ [nl]) ''ok''" 0 timerName]
      toggle_probe_then_disable_or_enable [of "fixedProcs (''disabled'' @ [nl]) ''ok''" 0 timerName]
      e d
    by (simp add: fixedProcs_def)
qed

text \<open>
  C8. If \<open>systemctl\<close> is not resolvable on the execution path, \<open>main\<close> prints
  the diagnostic to standard error and exits with status 1 without starting the
  interactive program; otherwise it starts the interactive program.
\<close>

theorem main_requires_systemctl:
  "(\<not> lookPath H ''systemctl'' \<longrightarrow>
      stderrLines (main H) = [''systemctl not found''] \<and> exitStatus (main H) = 1 \<and>
      \<not> programStarted (main H)) \<and>
   (lookPath H ''systemctl'' \<longrightarrow> programStarted (main H))"
  by (simp add: main_def split: option.splits)

theorem main_requires_systemctl_witness:
  "\<not> lookPath \<lparr>lookPath = (\<lambda>name. False), startError = None\<rparr> ''systemctl'' \<and>
   stderrLines (main \<lparr>lookPath = (\<lambda>name. False), startError = None\<rparr>) = [''systemctl not found''] \<and>
   exitStatus (main \<lparr>lookPath = (\<lambda>name. False), startError = None\<rparr>) = 1 \<and>
   \<not> programStarted (main \<lparr>lookPath = (\<lambda>name. False), startError = None\<rparr>) \<and>
   lookPath \<lparr>lookPath = (\<lambda>name. name = ''systemctl''), startError = None\<rparr> ''systemctl'' \<and>
   programStarted (main \<lparr>lookPath = (\<lambda>name. name = ''systemctl''), startError = None\<rparr>)"
  using main_requires_systemctl [of "\<lparr>lookPath = (\<lambda>name. False), startError = None\<rparr>"]
    main_requires_systemctl [of "\<lparr>lookPath = (\<lambda>name. name = ''systemctl''), startError = None\<rparr>"]
  by simp

section \<open>Results of abandoned operations\<close>

lemma runClosure_result_kind:
  "(\<exists>out. fst (runClosure P h tag u) = OutputMsg tag out) \<or>
   (\<exists>e. fst (runClosure P h tag u) = ErrMsg e)"
  by (auto simp: runClosure_def split: option.splits sum.splits prod.splits)

lemma Update_result_cancels:
  assumes "msg = OutputMsg t out \<or> msg = ErrMsg e"
  shows "\<exists>m' c. Update W ord w m msg = Inr (m', c, invokeCancel (cancelFunc m) w)"
  using assms Update_OutputMsg_fields [of W ord w m t out] Update_ErrMsg_fields [of W ord w m e]
  by blast

lemma cancelled_invokeCancel:
  "cancelled (invokeCancel f w) = cancelled w @ (case f of None \<Rightarrow> [] | Some h \<Rightarrow> [h])"
  by (simp add: invokeCancel_def split: option.splits)

text \<open>
  C1 (as amended). In every event sequence in which operation A is dispatched and then
  operation B before A's result arrives, \<open>Update\<close> applies A's result message like any
  other: it clears loading, sets the status line to \<open>[A's tag]\<close> and the first line of
  A's output, and stores A's output. A result of the current operation B clears loading
  and sets the status line and the stored output from B's, whether it arrives first or
  after A's. (Before either result, the stored output is still the one from before A;
  the status line reads \<open>B's tag\<close>, a space and the unit when \<open>asyncRun\<close>'s assignments
  reach the returned model.)
\<close>

theorem abandoned_result_is_applied:
  assumes A: "Update W ord w m (KeyMsg kA) = Inr (mA, Batch [TickNow, Runner hA tagA uA], wA)"
    and B: "Update W ord wA mA (KeyMsg kB) = Inr (mB, Batch [TickNow, Runner hB tagB uB], wB)"
    and RA: "fst (runClosure P hA tagA uA) = OutputMsg tA outA"
    and RB: "fst (runClosure P hB tagB uB) = OutputMsg tB outB"
  shows "(ord = CallFirst \<longrightarrow> loading mB \<and> status mB = tagB @ '' '' @ uB) \<and>
     lastOutput mB = lastOutput m \<and>
     (\<exists>m1 c1 w1. Update W ord wB mB (OutputMsg tA outA) = Inr (m1, c1, w1) \<and>
        \<not> loading m1 \<and> status m1 = ''['' @ tagA @ ''] '' @ firstLine outA \<and>
        lastOutput m1 = outA \<and>
        (\<exists>m2 c2 w2. Update W ord w1 m1 (OutputMsg tB outB) = Inr (m2, c2, w2) \<and>
           \<not> loading m2 \<and> status m2 = ''['' @ tagB @ ''] '' @ firstLine outB \<and>
           lastOutput m2 = outB)) \<and>
     (\<exists>m2 c2 w2. Update W ord wB mB (OutputMsg tB outB) = Inr (m2, c2, w2) \<and>
        \<not> loading m2 \<and> status m2 = ''['' @ tagB @ ''] '' @ firstLine outB \<and>
        lastOutput m2 = outB)"
proof -
  have tA: "tA = tagA" and tB: "tB = tagB"
    using RA RB by (auto dest: runClosure_OutputMsg_tag)
  have sA: "lastOutput mA = lastOutput m"
    using Update_dispatch_shape [OF A] by simp
  have sB: "(ord = CallFirst \<longrightarrow> loading mB \<and> status mB = tagB @ '' '' @ uB) \<and>
     lastOutput mB = lastOutput m"
    using Update_dispatch_shape [OF B] sA by simp
  obtain m1 c1 where 1: "Update W ord wB mB (OutputMsg tA outA) = Inr (m1, c1, invokeCancel (cancelFunc mB) wB)"
    and f1: "\<not> loading m1" "status m1 = ''['' @ tA @ ''] '' @ firstLine outA" "lastOutput m1 = outA"
    using Update_OutputMsg_fields [of W ord wB mB tA outA] by blast
  obtain m2 c2 where 2: "Update W ord (invokeCancel (cancelFunc mB) wB) m1 (OutputMsg tB outB) =
        Inr (m2, c2, invokeCancel (cancelFunc m1) (invokeCancel (cancelFunc mB) wB))"
    and f2: "\<not> loading m2" "status m2 = ''['' @ tB @ ''] '' @ firstLine outB" "lastOutput m2 = outB"
    using Update_OutputMsg_fields [of W ord "invokeCancel (cancelFunc mB) wB" m1 tB outB] by blast
  obtain m3 c3 where 3: "Update W ord wB mB (OutputMsg tB outB) = Inr (m3, c3, invokeCancel (cancelFunc mB) wB)"
    and f3: "\<not> loading m3" "status m3 = ''['' @ tB @ ''] '' @ firstLine outB" "lastOutput m3 = outB"
    using Update_OutputMsg_fields [of W ord wB mB tB outB] by blast
  have stale: "\<exists>m1 c1 w1. Update W ord wB mB (OutputMsg tA outA) = Inr (m1, c1, w1) \<and>
        \<not> loading m1 \<and> status m1 = ''['' @ tagA @ ''] '' @ firstLine outA \<and>
        lastOutput m1 = outA \<and>
        (\<exists>m2 c2 w2. Update W ord w1 m1 (OutputMsg tB outB) = Inr (m2, c2, w2) \<and>
           \<not> loading m2 \<and> status m2 = ''['' @ tagB @ ''] '' @ firstLine outB \<and>
           lastOutput m2 = outB)"
    using 1 f1 2 f2 tA tB by blast
  have current: "\<exists>m2 c2 w2. Update W ord wB mB (OutputMsg tB outB) = Inr (m2, c2, w2) \<and>
        \<not> loading m2 \<and> status m2 = ''['' @ tagB @ ''] '' @ firstLine outB \<and>
        lastOutput m2 = outB"
    using 3 f3 tB by blast
  from sB stale current show ?thesis by (intro conjI) blast+
qed

text \<open>
  C9. Every command-result or error message that \<open>Update\<close> consumes invokes the
  cancellation function stored in the model at that moment, if there is one. So when A
  is dispatched, then B, and then the result of A's closure arrives, the function
  invoked is the one of B's context; A's is a different one and is not invoked. (The
  function stored is B's when \<open>asyncRun\<close>'s assignments reach the model \<open>Update\<close>
  returns, the order \<open>CallFirst\<close>.)
\<close>

theorem result_invokes_stored_cancel:
  assumes A: "Update W ord w m (KeyMsg kA) = Inr (mA, Batch [TickNow, Runner hA tagA uA], wA)"
    and B: "Update W ord wA mA (KeyMsg kB) = Inr (mB, Batch [TickNow, Runner hB tagB uB], wB)"
    and R: "fst (runClosure P hA tagA uA) = msg"
    and O: "ord = CallFirst"
  shows "(\<exists>m' c w'. Update W ord w0 m0 (OutputMsg t0 out0) = Inr (m', c, w') \<and>
            cancelled w' = cancelled w0 @ (case cancelFunc m0 of None \<Rightarrow> [] | Some h \<Rightarrow> [h])) \<and>
         (\<exists>m' c w'. Update W ord w0 m0 (ErrMsg e0) = Inr (m', c, w') \<and>
            cancelled w' = cancelled w0 @ (case cancelFunc m0 of None \<Rightarrow> [] | Some h \<Rightarrow> [h])) \<and>
         hA \<noteq> hB \<and> cancelFunc mB = Some hB \<and> cancelled wB = cancelled w \<and>
         (\<exists>m' c w'. Update W ord wB mB msg = Inr (m', c, w') \<and>
            cancelled w' = cancelled w @ [hB])"
proof -
  have g1: "\<exists>m' c w'. Update W ord w0 m0 (OutputMsg t0 out0) = Inr (m', c, w') \<and>
            cancelled w' = cancelled w0 @ (case cancelFunc m0 of None \<Rightarrow> [] | Some h \<Rightarrow> [h])"
    using Update_OutputMsg_fields [of W ord w0 m0 t0 out0] cancelled_invokeCancel [of "cancelFunc m0" w0]
    by blast
  have g2: "\<exists>m' c w'. Update W ord w0 m0 (ErrMsg e0) = Inr (m', c, w') \<and>
            cancelled w' = cancelled w0 @ (case cancelFunc m0 of None \<Rightarrow> [] | Some h \<Rightarrow> [h])"
    using Update_ErrMsg_fields [of W ord w0 m0 e0] cancelled_invokeCancel [of "cancelFunc m0" w0]
    by blast
  have a: "hA = nextCtx w" "nextCtx wA = Suc hA" "cancelled wA = cancelled w"
    using Update_dispatch_shape [OF A] by simp_all
  have b: "hB = nextCtx wA" "cancelled wB = cancelled wA" "cancelFunc mB = Some hB"
    using Update_dispatch_shape [OF B] O by simp_all
  have ne: "hA \<noteq> hB"
    using a b by simp
  have kind: "(\<exists>out. msg = OutputMsg tagA out) \<or> (\<exists>e. msg = ErrMsg e)"
    unfolding R [symmetric] by (rule runClosure_result_kind)
  then obtain t out e where "msg = OutputMsg t out \<or> msg = ErrMsg e"
    by blast
  from Update_result_cancels [OF this, of W ord wB mB]
  obtain m' c where "Update W ord wB mB msg = Inr (m', c, invokeCancel (cancelFunc mB) wB)"
    by blast
  moreover have "cancelled (invokeCancel (cancelFunc mB) wB) = cancelled w @ [hB]"
    using a b by (simp add: cancelled_invokeCancel)
  ultimately have late: "\<exists>m' c w'. Update W ord wB mB msg = Inr (m', c, w') \<and>
            cancelled w' = cancelled w @ [hB]"
    by blast
  from g1 g2 ne b a late show ?thesis by simp
qed

subsection \<open>A concrete run: enter, then l, then the result of enter\<close>

lemma run_enter:
  "Update plainWidgets CallFirst world0 (newModel plainWidgets) (KeyMsg ''enter'') =
     Inr (busyModel ''status'' 0, Batch [TickNow, Runner 0 ''status'' timerName], worldAfter 1)"
  by code_simp

lemma run_enter_then_l:
  "Update plainWidgets CallFirst (worldAfter 1) (busyModel ''status'' 0) (KeyMsg ''l'') =
     Inr (busyModel ''logs'' 1, Batch [TickNow, Runner 1 ''logs'' timerName], worldAfter 2)"
  by code_simp

lemma closure_status_active:
  "fst (runClosure (fixedProcs [] ''active'') 0 ''status'' timerName) = OutputMsg ''status'' ''active''"
  by (simp add: runClosure_def selectCmd_def fixedProcs_def)

lemma closure_logs_active:
  "fst (runClosure (fixedProcs [] ''active'') 1 ''logs'' timerName) = OutputMsg ''logs'' ''active''"
  by (simp add: runClosure_def selectCmd_def fixedProcs_def)

theorem abandoned_result_is_applied_witness:
  "Update plainWidgets CallFirst world0 (newModel plainWidgets) (KeyMsg ''enter'') =
     Inr (busyModel ''status'' 0, Batch [TickNow, Runner 0 ''status'' timerName], worldAfter 1) \<and>
   Update plainWidgets CallFirst (worldAfter 1) (busyModel ''status'' 0) (KeyMsg ''l'') =
     Inr (busyModel ''logs'' 1, Batch [TickNow, Runner 1 ''logs'' timerName], worldAfter 2) \<and>
   fst (runClosure (fixedProcs [] ''active'') 0 ''status'' timerName) =
     (OutputMsg ''status'' ''active'' :: unit msg) \<and>
   fst (runClosure (fixedProcs [] ''active'') 1 ''logs'' timerName) =
     (OutputMsg ''logs'' ''active'' :: unit msg) \<and>
   (\<exists>m1 c1 w1.
      Update plainWidgets CallFirst (worldAfter 2) (busyModel ''logs'' 1) (OutputMsg ''status'' ''active'') =
        Inr (m1, c1, w1) \<and>
      \<not> loading m1 \<and> status m1 = ''[status] active'' \<and> lastOutput m1 = ''active'')"
proof -
  have fl: "''['' @ ''status'' @ ''] '' @ firstLine ''active'' = ''[status] active''"
    by code_simp
  have "\<exists>m1 c1 w1.
      Update plainWidgets CallFirst (worldAfter 2) (busyModel ''logs'' 1) (OutputMsg ''status'' ''active'') =
        Inr (m1, c1, w1) \<and>
      \<not> loading m1 \<and> status m1 = ''['' @ ''status'' @ ''] '' @ firstLine ''active'' \<and>
      lastOutput m1 = ''active''"
    using abandoned_result_is_applied
      [OF run_enter run_enter_then_l closure_status_active closure_logs_active]
    by blast
  then show ?thesis
    unfolding fl
    using run_enter run_enter_then_l closure_status_active closure_logs_active by blast
qed

theorem abandoned_result_not_discarded_counterexample:
  "cmdOf (Update plainWidgets CallFirst world0 (newModel plainWidgets) (KeyMsg ''enter'')) =
     Some (Batch [TickNow, Runner 0 ''status'' timerName]) \<and>
   fst (runClosure (fixedProcs [] ''active'') 0 ''status'' timerName) =
     (OutputMsg ''status'' ''active'' :: unit msg) \<and>
   observe (UpdateAll plainWidgets CallFirst world0 (newModel plainWidgets)
      [KeyMsg ''enter'', KeyMsg ''l'']) =
     Some (True, ''logs nightly-onedrive-backup.timer'', [], []) \<and>
   observe (UpdateAll plainWidgets CallFirst world0 (newModel plainWidgets)
      [KeyMsg ''enter'', KeyMsg ''l'', OutputMsg ''status'' ''active'']) =
     Some (False, ''[status] active'', ''active'', [1]) \<and>
   observe (UpdateAll plainWidgets OperandFirst world0 (newModel plainWidgets)
      [KeyMsg ''enter'', KeyMsg ''l'']) =
     Some (False, ''Ready'', [], []) \<and>
   observe (UpdateAll plainWidgets OperandFirst world0 (newModel plainWidgets)
      [KeyMsg ''enter'', KeyMsg ''l'', OutputMsg ''status'' ''active'']) =
     Some (False, ''[status] active'', ''active'', [])"
  by code_simp

theorem result_invokes_stored_cancel_witness:
  "Update plainWidgets CallFirst world0 (newModel plainWidgets) (KeyMsg ''enter'') =
     Inr (busyModel ''status'' 0, Batch [TickNow, Runner 0 ''status'' timerName], worldAfter 1) \<and>
   Update plainWidgets CallFirst (worldAfter 1) (busyModel ''status'' 0) (KeyMsg ''l'') =
     Inr (busyModel ''logs'' 1, Batch [TickNow, Runner 1 ''logs'' timerName], worldAfter 2) \<and>
   fst (runClosure (fixedProcs [] ''active'') 0 ''status'' timerName) =
     (OutputMsg ''status'' ''active'' :: unit msg) \<and>
   (0 :: nat) \<noteq> 1 \<and> cancelFunc (busyModel ''logs'' 1) = Some 1 \<and>
   (\<exists>m' c w'.
      Update plainWidgets CallFirst (worldAfter 2) (busyModel ''logs'' 1) (OutputMsg ''status'' ''active'') =
        Inr (m', c, w') \<and>
      cancelled w' = [1])"
proof -
  have c0: "cancelled world0 @ [1] = [1]"
    by (simp add: world0_def)
  have "\<exists>m' c w'.
      Update plainWidgets CallFirst (worldAfter 2) (busyModel ''logs'' 1) (OutputMsg ''status'' ''active'') =
        Inr (m', c, w') \<and>
      cancelled w' = cancelled world0 @ [1]"
    using result_invokes_stored_cancel [OF run_enter run_enter_then_l closure_status_active refl]
    by blast
  moreover have "cancelFunc (busyModel ''logs'' 1) = Some 1"
    using result_invokes_stored_cancel [OF run_enter run_enter_then_l closure_status_active refl]
    by blast
  ultimately show ?thesis
    unfolding c0
    using run_enter run_enter_then_l closure_status_active by simp
qed

section \<open>Key presses and the rendered frame\<close>

lemma dispatch_selected:
  "SelectedItem W (ulist m) = Some u \<Longrightarrow>
   cmdOf (dispatch W ord w m tagOf) =
     Some (Batch [TickNow, Runner (nextCtx w) (tagOf u) (title u)])"
  by (simp add: dispatch_def asyncRun_def cmdOf_def Let_def)

lemma runClosure_static:
  "snd (runClosure P h ''enable'' unit) = [[''systemctl'', ''enable'', ''--now'', unit]]"
  "snd (runClosure P h ''start'' unit) = [[''systemctl'', ''start'', unit]]"
  "snd (runClosure P h ''status'' unit) = [[''systemctl'', ''status'', ''--no-pager'', unit]]"
  "snd (runClosure P h ''logs'' unit) = [[''journalctl'', ''-u'', unit, ''-n'', ''50'', ''--no-pager'']]"
  by (simp_all add: runClosure_def selectCmd_def split: sum.splits)





text \<open>
  C4 (as amended). Pressing the space key dispatches an action that depends on the
  selected unit: \<open>toggle\<close> when its title ends in \<open>.timer\<close> (the timer unit), and
  \<open>enable\<close>, which runs \<open>systemctl enable --now <unit>\<close>, otherwise (the service unit).
\<close>

theorem space_dispatches_toggle_or_enable:
  assumes "SelectedItem (W :: ('l, 's, 'c, 'e) widgets) (ulist m) = Some u"
  shows "cmdOf (Update W ord w m (KeyMsg '' '')) =
           Some (Batch [TickNow,
             Runner (nextCtx w) (if HasSuffix (title u) ''.timer'' then ''toggle'' else ''enable'')
               (title u)]) \<and>
         (title u = timerName \<longrightarrow>
            cmdOf (Update W ord w m (KeyMsg '' '')) =
              Some (Batch [TickNow, Runner (nextCtx w) ''toggle'' timerName])) \<and>
         (title u = serviceName \<longrightarrow>
            cmdOf (Update W ord w m (KeyMsg '' '')) =
              Some (Batch [TickNow, Runner (nextCtx w) ''enable'' serviceName]) \<and>
            snd (runClosure P h ''enable'' serviceName :: 'e msg \<times> string list list) =
              [[''systemctl'', ''enable'', ''--now'', serviceName]])"
proof -
  have t: "HasSuffix timerName ''.timer''"
    by (simp add: HasSuffix_def timerName_def)
  have s: "\<not> HasSuffix serviceName ''.timer''"
    by (simp add: HasSuffix_def serviceName_def)
  have "cmdOf (Update W ord w m (KeyMsg '' '')) =
          Some (Batch [TickNow, Runner (nextCtx w) (spaceAction u) (title u)])"
    using dispatch_selected [OF assms, of ord w spaceAction] by (simp add: Update_key_cases)
  then show ?thesis
    using t s by (auto simp: spaceAction_def runClosure_static)
qed

theorem space_dispatches_toggle_or_enable_witness:
  "SelectedItem plainWidgets (ulist serviceSelected) =
     Some \<lparr>title = serviceName, desc = ''Run Now, View logs''\<rparr> \<and>
   cmdOf (Update plainWidgets CallFirst world0 serviceSelected (KeyMsg '' '')) =
     Some (Batch [TickNow, Runner 0 ''enable'' serviceName]) \<and>
   SelectedItem plainWidgets (ulist (newModel plainWidgets)) =
     Some \<lparr>title = timerName, desc = ''Enable/Disable, View status, Run Now''\<rparr> \<and>
   cmdOf (Update plainWidgets CallFirst world0 (newModel plainWidgets) (KeyMsg '' '')) =
     Some (Batch [TickNow, Runner 0 ''toggle'' timerName])"
proof -
  have s: "SelectedItem plainWidgets (ulist serviceSelected) =
     Some \<lparr>title = serviceName, desc = ''Run Now, View logs''\<rparr>"
    by (simp add: serviceSelected_def plainWidgets_def cursorSelected_def items_def)
  have t: "SelectedItem plainWidgets (ulist (newModel plainWidgets)) =
     Some \<lparr>title = timerName, desc = ''Enable/Disable, View status, Run Now''\<rparr>"
    by (simp add: newModel_def plainWidgets_def cursorSelected_def items_def)
  have n: "nextCtx world0 = 0"
    by (simp add: world0_def)
  show ?thesis
    using s t space_dispatches_toggle_or_enable [OF s, of CallFirst world0 "fixedProcs [] []" 0]
      space_dispatches_toggle_or_enable [OF t, of CallFirst world0 "fixedProcs [] []" 0]
    unfolding n by (simp add: HasSuffix_def serviceName_def timerName_def)
qed

theorem space_on_service_not_run_now_counterexample:
  "SelectedItem plainWidgets (ulist serviceSelected) =
     Some \<lparr>title = serviceName, desc = ''Run Now, View logs''\<rparr> \<and>
   cmdOf (Update plainWidgets CallFirst world0 serviceSelected (KeyMsg '' '')) =
     Some (Batch [TickNow, Runner 0 ''enable'' serviceName]) \<and>
   snd (runClosure (fixedProcs [] []) 0 ''enable'' serviceName :: unit msg \<times> string list list) =
     [[''systemctl'', ''enable'', ''--now'', serviceName]] \<and>
   cmdOf (Update plainWidgets CallFirst world0 serviceSelected (KeyMsg ''r'')) =
     Some (Batch [TickNow, Runner 0 ''start'' serviceName]) \<and>
   snd (runClosure (fixedProcs [] []) 0 ''start'' serviceName :: unit msg \<times> string list list) =
     [[''systemctl'', ''start'', serviceName]]"
  by code_simp

text \<open>
  C6. Pressing \<open>l\<close> dispatches, for whichever unit is selected, the closure that runs
  exactly \<open>journalctl -u <unit> -n 50 --no-pager\<close>; and whenever the stored output is not
  empty, the frame \<open>View\<close> renders shows of it the last 20 lines and no more (all of
  them when there are fewer), however many lines the output has.
\<close>

theorem logs_command_and_output_window:
  assumes "SelectedItem (W :: ('l, 's, 'c, 'e) widgets) (ulist m) = Some u"
  shows "cmdOf (Update W ord w m (KeyMsg ''l'')) =
           Some (Batch [TickNow, Runner (nextCtx w) ''logs'' (title u)]) \<and>
         snd (runClosure P h ''logs'' (title u) :: 'e msg \<times> string list list) =
           [[''journalctl'', ''-u'', title u, ''-n'', ''50'', ''--no-pager'']] \<and>
         (lastOutput v \<noteq> [] \<longrightarrow>
            (\<exists>shown.
               View W v =
                 Inr ((if loading v
                       then listView W (ulist v) @ [nl] @ spinView W (spin v) @ '' '' @ status v
                       else listView W (ulist v) @ [nl] @ renderStatus W (status v)) @
                      [nl, nl] @ renderFaint W shown @ help_text) \<and>
               Split_nl shown = spec_lastLines 20 (Split_nl (lastOutput v)) \<and>
               length (Split_nl shown) \<le> 20))"
proof -
  have key: "cmdOf (Update W ord w m (KeyMsg ''l'')) =
           Some (Batch [TickNow, Runner (nextCtx w) ''logs'' (title u)])"
    using dispatch_selected [OF assms, of ord w "\<lambda>_. ''logs''"] by (simp add: Update_key_cases)
  have window: "\<exists>shown.
               View W v =
                 Inr ((if loading v
                       then listView W (ulist v) @ [nl] @ spinView W (spin v) @ '' '' @ status v
                       else listView W (ulist v) @ [nl] @ renderStatus W (status v)) @
                      [nl, nl] @ renderFaint W shown @ help_text) \<and>
               Split_nl shown = spec_lastLines 20 (Split_nl (lastOutput v)) \<and>
               length (Split_nl shown) \<le> 20"
    if ne: "lastOutput v \<noteq> []"
  proof -
    obtain r where r: "trimLines (lastOutput v) 20 = Inr r"
      and s: "Split_nl r = spec_lastLines (nat 20) (Split_nl (lastOutput v))"
      using trimLines_window [of 20 "lastOutput v"] by auto
    have "length (Split_nl r) \<le> 20"
      using s by (simp add: spec_lastLines_drop)
    moreover have "View W v =
                 Inr ((if loading v
                       then listView W (ulist v) @ [nl] @ spinView W (spin v) @ '' '' @ status v
                       else listView W (ulist v) @ [nl] @ renderStatus W (status v)) @
                      [nl, nl] @ renderFaint W r @ help_text)"
      using ne r by (simp add: View_def Let_def)
    ultimately show ?thesis using s by auto
  qed
  from key window show ?thesis
    by (simp add: runClosure_static)
qed


theorem logs_command_and_output_window_witness:
  "SelectedItem plainWidgets (ulist serviceSelected) =
     Some \<lparr>title = serviceName, desc = ''Run Now, View logs''\<rparr> \<and>
   cmdOf (Update plainWidgets CallFirst world0 serviceSelected (KeyMsg ''l'')) =
     Some (Batch [TickNow, Runner 0 ''logs'' serviceName]) \<and>
   snd (runClosure (fixedProcs [] manyLines) 0 ''logs'' serviceName :: unit msg \<times> string list list) =
     [[''journalctl'', ''-u'', serviceName, ''-n'', ''50'', ''--no-pager'']] \<and>
   lastOutput (serviceSelected\<lparr>lastOutput := manyLines\<rparr>) \<noteq> [] \<and>
   length (Split_nl manyLines) = 26 \<and>
   (\<exists>shown.
      View plainWidgets (serviceSelected\<lparr>lastOutput := manyLines\<rparr>) =
        Inr (listView plainWidgets (ulist serviceSelected) @ [nl] @ ''Ready'' @
             [nl, nl] @ shown @ help_text) \<and>
      length (Split_nl shown) \<le> 20)"
proof -
  have s: "SelectedItem plainWidgets (ulist serviceSelected) =
     Some \<lparr>title = serviceName, desc = ''Run Now, View logs''\<rparr>"
    by (simp add: serviceSelected_def plainWidgets_def cursorSelected_def items_def)
  have ne: "lastOutput (serviceSelected\<lparr>lastOutput := manyLines\<rparr>) \<noteq> []"
    by (simp add: manyLines_def eval_nat_numeral)
  have len: "length (Split_nl manyLines) = 26"
    by code_simp
  have n: "nextCtx world0 = 0"
    by (simp add: world0_def)
  have v: "loading (serviceSelected\<lparr>lastOutput := manyLines\<rparr>) = False"
    "status (serviceSelected\<lparr>lastOutput := manyLines\<rparr>) = ''Ready''"
    "ulist (serviceSelected\<lparr>lastOutput := manyLines\<rparr>) = ulist serviceSelected"
    "renderStatus plainWidgets = (\<lambda>s. s)" "renderFaint plainWidgets = (\<lambda>s. s)"
    by (simp_all add: serviceSelected_def newModel_def plainWidgets_def)
  note T = logs_command_and_output_window
      [OF s, of CallFirst world0 "fixedProcs [] manyLines" 0 "serviceSelected\<lparr>lastOutput := manyLines\<rparr>"]
  have "\<exists>shown.
      View plainWidgets (serviceSelected\<lparr>lastOutput := manyLines\<rparr>) =
        Inr (listView plainWidgets (ulist serviceSelected) @ [nl] @ ''Ready'' @
             [nl, nl] @ shown @ help_text) \<and>
      length (Split_nl shown) \<le> 20"
    using T ne unfolding v by auto
  moreover have "cmdOf (Update plainWidgets CallFirst world0 serviceSelected (KeyMsg ''l'')) =
     Some (Batch [TickNow, Runner 0 ''logs'' serviceName])"
    using T unfolding n by simp
  moreover have "snd (runClosure (fixedProcs [] manyLines) 0 ''logs'' serviceName :: unit msg \<times> string list list) =
     [[''journalctl'', ''-u'', serviceName, ''-n'', ''50'', ''--no-pager'']]"
    by (simp add: runClosure_static)
  ultimately show ?thesis
    using s ne len by blast
qed

end
